theory Spec2Isabelle
  imports Complex_Main
begin

section \<open>Data model of the ledger core (bigchaindb/core.py)\<close>

text \<open>
  Keys, hashes and signatures are base-58 text in the source; here they are strings.
  The exceptions that the methods of \<open>Bigchain\<close> raise, or that Python raises inside
  them, are the constructors of \<open>error\<close>. \<open>ChainCorruption\<close> stands for the bare
  \<open>Exception('Transaction ... is present in multiple valid blocks')\<close> of
  \<open>get_blocks_status_containing_tx\<close>; \<open>ReqlError\<close> for a failed store query.
\<close>

type_synonym pubkey = string
type_synonym hash = string

datatype error =
    ValueError | OperationError | TransactionDoesNotExist | TransactionOwnerError
  | DoubleSpend | InvalidHash | InvalidSignature
  | InvalidTransaction | InvalidPayload | BalanceNotEnough | InvalidAsset
  | GenesisBlockAlreadyExistsError | ImproperVoteError | ChainCorruption
  | AttributeError | UnboundLocalError | IndexError | KeyError | TypeError
  | OverflowError | ReqlError

datatype status = BLOCK_INVALID | BLOCK_VALID | BLOCK_UNDECIDED

record vote =
  node_pubkey :: pubkey
  signature :: string
  voting_for_block :: hash
  previous_block :: hash
  is_block_valid :: bool
  invalid_reason :: "string option"
  vote_timestamp :: string

datatype tx_input = TxInput (txid: hash) (input_cid: nat)

datatype details = Details (public_key: "pubkey option") (subfulfillments: "details list")

record condition =
  cid :: nat
  new_owners :: "pubkey list"
  details :: details

record fulfillment =
  fid :: nat
  current_owners :: "pubkey list"
  input :: "tx_input option"

text \<open>
  The payload dict with the keys that the ledger and its domain operations read or
  write; a key that is absent is \<open>None\<close>. Numbers are Python ints.
\<close>

record payload =
  message :: "string option"
  category :: "string option"
  issue :: "string option"
  amount :: "int option"
  account :: "int option"
  previous :: "string option"
  trader :: "string option"
  asset :: "string option"

record transaction =
  tx_id :: hash
  fulfillments :: "fulfillment list"
  conditions :: "condition list"
  operation :: string
  timestamp :: string
  data_payload :: payload
  assignee :: "pubkey option"

record block =
  block_id :: hash
  block_timestamp :: string
  transactions :: "transaction list"
  block_node_pubkey :: pubkey
  voters :: "pubkey list"
  block_signature :: string
  votes :: "vote list"
  block_number :: "int option"

text \<open>
  The two tables of the store, each in the order in which a scan returns its documents,
  and the durability requested by each insert into \<open>bigchain\<close>.
\<close>

datatype durability = Soft | Hard

record db =
  bigchain :: "block list"
  backlog :: "transaction list"
  block_writes :: "(hash \<times> durability) list"

text \<open>
  What \<open>tool.get_last_txid\<close> works on: the entries \<open>{'txid', 'cid', 'previous'}\<close>
  that the currency queries collect; and what \<open>get_last_currency\<close> returns: the text
  \<open>'init'\<close>, a transaction, or \<open>None\<close>.
\<close>

datatype currency_id = CurrencyId (currency_txid: hash) (currency_cid: nat) (currency_previous: string)

datatype last_currency = Init | NoTransaction | LastTx transaction

text \<open>
  A \<open>Bigchain\<close> instance: its key pair and its keyring, and with them what core.py
  calls but does not define, taken as parameters: the operations of the consensus plugin
  (\<open>consensus_\<close>), of the modules \<open>util\<close>, \<open>crypto\<close>, \<open>tool\<close> and \<open>payload\<close>,
  the clock and \<open>random.choice\<close>. The plugin's validation is handed the instance and
  reads the store through it, so its model takes the store.
\<close>

record node =
  me :: pubkey
  me_private :: string
  nodes_except_me :: "pubkey list"
  consensus_verify_vote_signature :: "block \<Rightarrow> vote \<Rightarrow> bool"
  consensus_validate_transaction :: "db \<Rightarrow> transaction \<Rightarrow> error + transaction"
  consensus_validate_block :: "db \<Rightarrow> block \<Rightarrow> error + block"
  consensus_create_transaction ::
    "pubkey list \<Rightarrow> pubkey list \<Rightarrow> tx_input option \<Rightarrow> string \<Rightarrow> payload \<Rightarrow> transaction"
  consensus_sign_transaction :: "transaction \<Rightarrow> string \<Rightarrow> transaction"
  util_verify_vote_signature :: "block \<Rightarrow> vote \<Rightarrow> bool"
  util_condition_details_has_owner :: "details \<Rightarrow> pubkey \<Rightarrow> bool"
  util_timestamp :: string
  crypto_hash_block :: "block \<Rightarrow> hash"
  crypto_sign_block :: "string \<Rightarrow> block \<Rightarrow> string"
  random_choice :: "pubkey list \<Rightarrow> pubkey"
  payload_validate_payload_format :: "payload \<Rightarrow> bool"
  tool_get_payload_type :: "transaction \<Rightarrow> string"
  tool_get_last_txid :: "currency_id list \<Rightarrow> currency_id option"
  tool_get_current_account :: "last_currency \<Rightarrow> error + int"
  tool_get_pair_payload :: "payload \<Rightarrow> payload \<times> payload"

section \<open>Election status\<close>

text \<open>
  \<open>Bigchain.block_election_status\<close>. \<open>operator.mul\<close> on two Python bools is the
  integer product; \<open>n_voters / 2\<close> is true division, exact for every length that a
  list can have.
\<close>

definition block_election_status :: "node \<Rightarrow> block \<Rightarrow> status" where
  "block_election_status self block =
     (let n_voters = length (voters block);
          vote_cast = map is_block_valid (votes block);
          vote_validity = map (consensus_verify_vote_signature self block) (votes block);
          vote_list = map2 (\<lambda>c v. (of_bool c :: int) * of_bool v) vote_cast vote_validity;
          n_valid_votes = sum_list vote_list;
          n_invalid_votes = int (length vote_list) - n_valid_votes
      in if n_invalid_votes \<ge> \<lceil>real n_voters / 2\<rceil> then BLOCK_INVALID
         else if n_valid_votes > \<lfloor>real n_voters / 2\<rfloor> then BLOCK_VALID
         else BLOCK_UNDECIDED)"

section \<open>Queries on the chain\<close>

text \<open>
  A Python dict keeps its keys in insertion order, and assigning to a key that is
  present replaces the value in place: an association list with \<open>dict_set\<close>.
  \<open>dict_of\<close> is the dict comprehension over a list of key-value pairs.
\<close>

fun dict_set :: "'k \<Rightarrow> 'v \<Rightarrow> ('k \<times> 'v) list \<Rightarrow> ('k \<times> 'v) list" where
  "dict_set k v [] = [(k, v)]"
| "dict_set k v ((k', v') # d) =
     (if k' = k then (k, v) # d else (k', v') # dict_set k v d)"

definition dict_of :: "('k \<times> 'v) list \<Rightarrow> ('k \<times> 'v) list" where
  "dict_of kvs = foldl (\<lambda>d (k, v). dict_set k v d) [] kvs"

text \<open>
  \<open>pluck('votes', 'id', {'block': ['voters']})\<close>: the election information of a
  block document; the other fields are absent from the plucked document.
\<close>

definition election_info :: "block \<Rightarrow> block" where
  "election_info b =
     \<lparr>block_id = block_id b, block_timestamp = [], transactions = [],
      block_node_pubkey = [], voters = voters b, block_signature = [],
      votes = votes b, block_number = None\<rparr>"

text \<open>
  \<open>Bigchain.search_block_election_on_index\<close> for the index \<open>transaction_id\<close>, the
  multi-valued index of the ids of the transactions a block contains.
\<close>

definition get_all_transaction_id :: "db \<Rightarrow> hash \<Rightarrow> block list" where
  "get_all_transaction_id conn v =
     filter (\<lambda>b. v \<in> set (map tx_id (transactions b))) (bigchain conn)"

definition search_block_election_on_index :: "db \<Rightarrow> hash \<Rightarrow> block list" where
  "search_block_election_on_index conn v = map election_info (get_all_transaction_id conn v)"

definition get_blocks_status_containing_tx ::
  "node \<Rightarrow> db \<Rightarrow> hash \<Rightarrow> error + (hash \<times> status) list option" where
  "get_blocks_status_containing_tx self conn txid' =
     (let blocks = search_block_election_on_index conn txid' in
      if blocks \<noteq> [] then
        (let validity = dict_of (map (\<lambda>b. (block_id b, block_election_status self b)) blocks) in
         if count_list (map snd validity) BLOCK_VALID > 1 then Inl ChainCorruption
         else Inr (Some validity))
      else Inr None)"

text \<open>
  The loop of \<open>get_transaction\<close> that chooses \<open>target_block_id\<close>: it stops at the
  first VALID block and otherwise ends on the last block of the dict.
\<close>

fun target_block :: "(hash \<times> status) list \<Rightarrow> hash option \<Rightarrow> hash option" where
  "target_block [] target = target"
| "target_block ((bid, st) # rest) target =
     (if st = BLOCK_VALID then Some bid else target_block rest (Some bid))"

definition get_transaction :: "node \<Rightarrow> db \<Rightarrow> hash \<Rightarrow> error + transaction option" where
  "get_transaction self conn txid' =
     (case get_blocks_status_containing_tx self conn txid' of
        Inl e \<Rightarrow> Inl e
      | Inr None \<Rightarrow> Inr None
      | Inr (Some validity0) \<Rightarrow>
          (if validity0 \<noteq> [] then
             (let validity = filter (\<lambda>(bid, st). st \<noteq> BLOCK_INVALID) validity0 in
              if validity = [] then Inr None
              else
                (case target_block validity None of
                   None \<Rightarrow> Inl UnboundLocalError
                 | Some target_block_id \<Rightarrow>
                     (case find (\<lambda>b. block_id b = target_block_id) (bigchain conn) of
                        None \<Rightarrow> Inl ReqlError
                      | Some b \<Rightarrow>
                          (case filter (\<lambda>tx. tx_id tx = txid') (transactions b) of
                             [] \<Rightarrow> Inl IndexError
                           | tx # _ \<Rightarrow> Inr (Some tx)))))
           else Inr None))"

text \<open>
  \<open>Bigchain.get_spent\<close>. \<open>spending_transactions\<close> is its store query: every
  transaction of every block with a fulfillment whose input is \<open>tx_input\<close>, one entry
  per block that contains it. \<open>count_valid_transactions\<close> is its loop.
\<close>

definition spending_transactions :: "db \<Rightarrow> tx_input \<Rightarrow> transaction list" where
  "spending_transactions conn tx_in =
     filter (\<lambda>tx. list_ex (\<lambda>f. input f = Some tx_in) (fulfillments tx))
       (concat (map transactions (bigchain conn)))"

fun count_valid_transactions ::
  "node \<Rightarrow> db \<Rightarrow> transaction list \<Rightarrow> int \<Rightarrow> error + int" where
  "count_valid_transactions self conn [] num_valid_transactions = Inr num_valid_transactions"
| "count_valid_transactions self conn (tx # txs) num_valid_transactions =
     (case get_transaction self conn (tx_id tx) of
        Inl e \<Rightarrow> Inl e
      | Inr r \<Rightarrow>
          (let n = (if r \<noteq> None then num_valid_transactions + 1 else num_valid_transactions) in
           if n > 1 then Inl DoubleSpend
           else count_valid_transactions self conn txs n))"

definition get_spent :: "node \<Rightarrow> db \<Rightarrow> tx_input \<Rightarrow> error + transaction option" where
  "get_spent self conn tx_in =
     (let transactions' = spending_transactions conn tx_in in
      if transactions' \<noteq> [] then
        (case count_valid_transactions self conn transactions' 0 of
           Inl e \<Rightarrow> Inl e
         | Inr num_valid_transactions \<Rightarrow>
             (if num_valid_transactions \<noteq> 0 then Inr (Some (hd transactions')) else Inr None))
      else Inr None)"

text \<open>
  \<open>Bigchain.get_owned_ids\<close>. The variable \<open>tx_input\<close> is assigned only in the
  branches that find the owner in a condition, and is read after them for every
  condition: it keeps the value of an earlier condition or transaction, and reading it
  before any assignment raises \<open>UnboundLocalError\<close>. The loops therefore carry it.
  \<open>owned_query\<close> is the store query, \<open>owned_conditions\<close> the loop over the
  conditions of one transaction, \<open>owned_transactions\<close> the loop over the response.
  \<open>validity.values()\<close> on \<open>None\<close> raises \<open>AttributeError\<close>.
\<close>

definition owned_query :: "db \<Rightarrow> pubkey \<Rightarrow> transaction list" where
  "owned_query conn owner =
     filter (\<lambda>tx. list_ex (\<lambda>c. owner \<in> set (new_owners c)) (conditions tx))
       (concat (map transactions (bigchain conn)))"

fun owned_conditions ::
  "node \<Rightarrow> db \<Rightarrow> pubkey \<Rightarrow> transaction \<Rightarrow> condition list \<Rightarrow> tx_input option \<Rightarrow> tx_input list
     \<Rightarrow> error + (tx_input option \<times> tx_input list)" where
  "owned_conditions self conn owner tx [] tx_in owned = Inr (tx_in, owned)"
| "owned_conditions self conn owner tx (c # cs) tx_in owned =
     (case (if length (new_owners c) = 1 then
              (case public_key (details c) of
                 None \<Rightarrow> Inl KeyError
               | Some pk \<Rightarrow>
                   Inr (if pk = owner then Some (TxInput (tx_id tx) (cid c)) else tx_in))
            else
              Inr (if util_condition_details_has_owner self (details c) owner
                   then Some (TxInput (tx_id tx) (cid c)) else tx_in)) of
        Inl e \<Rightarrow> Inl e
      | Inr None \<Rightarrow> Inl UnboundLocalError
      | Inr (Some i) \<Rightarrow>
          (case get_spent self conn i of
             Inl e \<Rightarrow> Inl e
           | Inr spent \<Rightarrow>
               owned_conditions self conn owner tx cs (Some i)
                 (if spent = None then owned @ [i] else owned)))"

fun owned_transactions ::
  "node \<Rightarrow> db \<Rightarrow> pubkey \<Rightarrow> transaction list \<Rightarrow> tx_input option \<Rightarrow> tx_input list
     \<Rightarrow> error + tx_input list" where
  "owned_transactions self conn owner [] tx_in owned = Inr owned"
| "owned_transactions self conn owner (tx # txs) tx_in owned =
     (case get_blocks_status_containing_tx self conn (tx_id tx) of
        Inl e \<Rightarrow> Inl e
      | Inr None \<Rightarrow> Inl AttributeError
      | Inr (Some validity) \<Rightarrow>
          (if BLOCK_VALID \<notin> set (map snd validity) \<and> BLOCK_UNDECIDED \<notin> set (map snd validity)
           then owned_transactions self conn owner txs tx_in owned
           else
             (case owned_conditions self conn owner tx (conditions tx) tx_in owned of
                Inl e \<Rightarrow> Inl e
              | Inr (tx_in', owned') \<Rightarrow> owned_transactions self conn owner txs tx_in' owned')))"

definition get_owned_ids :: "node \<Rightarrow> db \<Rightarrow> pubkey \<Rightarrow> error + tx_input list" where
  "get_owned_ids self conn owner =
     owned_transactions self conn owner (owned_query conn owner) None []"

section \<open>Validation, votes and blocks\<close>

definition validate_transaction :: "node \<Rightarrow> db \<Rightarrow> transaction \<Rightarrow> error + transaction" where
  "validate_transaction self conn tx = consensus_validate_transaction self conn tx"

text \<open>
  \<open>Bigchain.is_valid_transaction\<close>: the transaction, or \<open>False\<close> (here
  \<open>None\<close>) for the exceptions of its \<open>except\<close> clause; any other exception
  propagates. The exception classes of \<open>bigchaindb.exceptions\<close> are taken to be
  unrelated subclasses of \<open>Exception\<close>.
\<close>

definition caught_by_is_valid_transaction :: "error \<Rightarrow> bool" where
  "caught_by_is_valid_transaction e =
     (e \<in> {ValueError, OperationError, TransactionDoesNotExist, TransactionOwnerError,
           DoubleSpend, InvalidHash, InvalidSignature})"

definition is_valid_transaction :: "node \<Rightarrow> db \<Rightarrow> transaction \<Rightarrow> error + transaction option" where
  "is_valid_transaction self conn tx =
     (case validate_transaction self conn tx of
        Inr _ \<Rightarrow> Inr (Some tx)
      | Inl e \<Rightarrow> if caught_by_is_valid_transaction e then Inr None else Inl e)"

text \<open>
  \<open>Bigchain.has_previous_vote\<close>. Its \<open>raise\<close> statement applies \<open>.format\<close> to the
  \<open>ImproperVoteError\<close> instance, not to the message: an exception object has no
  attribute \<open>format\<close>, so evaluating the operand of \<open>raise\<close> raises
  \<open>AttributeError\<close>.
\<close>

fun previous_vote_scan :: "node \<Rightarrow> block \<Rightarrow> vote list \<Rightarrow> error + bool" where
  "previous_vote_scan self block [] = Inr False"
| "previous_vote_scan self block (v # vs) =
     (if node_pubkey v = me self then
        (if util_verify_vote_signature self block v then Inr True else Inl AttributeError)
      else previous_vote_scan self block vs)"

definition has_previous_vote :: "node \<Rightarrow> block \<Rightarrow> error + bool" where
  "has_previous_vote self block =
     (if votes block \<noteq> [] then previous_vote_scan self block (votes block) else Inr False)"

fun validate_block_transactions :: "node \<Rightarrow> db \<Rightarrow> transaction list \<Rightarrow> error + unit" where
  "validate_block_transactions self conn [] = Inr ()"
| "validate_block_transactions self conn (tx # txs) =
     (case is_valid_transaction self conn tx of
        Inl e \<Rightarrow> Inl e
      | Inr (Some _) \<Rightarrow> validate_block_transactions self conn txs
      | Inr None \<Rightarrow>
          (case validate_transaction self conn tx of
             Inl e \<Rightarrow> Inl e
           | Inr _ \<Rightarrow> validate_block_transactions self conn txs))"

definition validate_block :: "node \<Rightarrow> db \<Rightarrow> block \<Rightarrow> error + block" where
  "validate_block self conn block =
     (case has_previous_vote self block of
        Inl e \<Rightarrow> Inl e
      | Inr True \<Rightarrow> Inr block
      | Inr False \<Rightarrow>
          (case consensus_validate_block self conn block of
             Inl e \<Rightarrow> Inl e
           | Inr _ \<Rightarrow>
               (case validate_block_transactions self conn (transactions block) of
                  Inl e \<Rightarrow> Inl e
                | Inr _ \<Rightarrow> Inr block)))"

text \<open>
  \<open>Bigchain.is_valid_block\<close>: \<open>except Exception\<close> catches every exception of the
  model, all of which are subclasses of \<open>Exception\<close>.
\<close>

definition is_valid_block :: "node \<Rightarrow> db \<Rightarrow> block \<Rightarrow> error + bool" where
  "is_valid_block self conn block =
     (case validate_block self conn block of Inr _ \<Rightarrow> Inr True | Inl e \<Rightarrow> Inr False)"

text \<open>
  \<open>Bigchain.create_block\<close>; the hash and the signature are computed on the inner
  block, before the id, the signature and the empty vote list are put around it.
\<close>

definition create_block :: "node \<Rightarrow> transaction list \<Rightarrow> error + block" where
  "create_block self validated_transactions =
     (if length validated_transactions = 0 then Inl OperationError
      else
        (let block = \<lparr>block_id = [], block_timestamp = util_timestamp self,
                       transactions = validated_transactions, block_node_pubkey = me self,
                       voters = nodes_except_me self @ [me self], block_signature = [],
                       votes = [], block_number = None\<rparr>
         in Inr (block\<lparr>block_id := crypto_hash_block self block,
                        block_signature := crypto_sign_block self (me_private self) block\<rparr>)))"

text \<open>
  \<open>Bigchain.write_block\<close>: an insert into the table \<open>bigchain\<close>. The store refuses
  a document whose primary key is taken, reporting it in the response without raising.
\<close>

definition write_block :: "db \<Rightarrow> block \<Rightarrow> durability \<Rightarrow> db" where
  "write_block conn block dur =
     (if block_id block \<in> set (map block_id (bigchain conn)) then conn
      else conn\<lparr>bigchain := bigchain conn @ [block],
                block_writes := block_writes conn @ [(block_id block, dur)]\<rparr>)"

definition genesis_payload :: payload where
  "genesis_payload =
     \<lparr>message = Some ''Hello World from the BigchainDB'', category = None, issue = None,
      amount = None, account = None, previous = None, trader = None, asset = None\<rparr>"

text \<open>\<open>Bigchain.create_genesis_block\<close>: the block it returns and the store after it.\<close>

definition create_genesis_block :: "node \<Rightarrow> db \<Rightarrow> error + (block \<times> db)" where
  "create_genesis_block self conn =
     (let blocks_count = length (bigchain conn) in
      if blocks_count \<noteq> 0 then Inl GenesisBlockAlreadyExistsError
      else
        (let transaction = consensus_create_transaction self [me self] [me self] None ''GENESIS''
                             genesis_payload;
             transaction_signed = consensus_sign_transaction self transaction (me_private self)
         in case create_block self [transaction_signed] of
              Inl e \<Rightarrow> Inl e
            | Inr block \<Rightarrow>
                (let block' = block\<lparr>block_number := Some 0\<rparr>
                 in Inr (block', write_block conn block' Hard))))"

text \<open>
  \<open>Bigchain.write_vote\<close>, which returns \<open>None\<close> on every path: the result is the
  store after the call. The vote check and the test for \<open>block_number\<close> read the block
  the caller passes; the update goes to the stored document whose id is the vote's
  \<open>voting_for_block\<close>, and is skipped when there is none.
\<close>

definition write_vote :: "node \<Rightarrow> db \<Rightarrow> block \<Rightarrow> vote \<Rightarrow> int \<Rightarrow> error + db" where
  "write_vote self conn block vote' block_number' =
     (case has_previous_vote self block of
        Inl e \<Rightarrow> Inl e
      | Inr True \<Rightarrow> Inr conn
      | Inr False \<Rightarrow>
          Inr (conn\<lparr>bigchain :=
                 map (\<lambda>doc. if block_id doc = voting_for_block vote'
                             then doc\<lparr>votes := votes doc @ [vote'],
                                      block_number := (if block_number block = None
                                                       then Some block_number'
                                                       else block_number doc)\<rparr>
                             else doc)
                   (bigchain conn)\<rparr>))"

section \<open>Currency operations\<close>

text \<open>
  \<open>Bigchain.write_transaction\<close> with the default soft durability: the assignee is
  drawn from the other nodes, or is this node when there are none; the store refuses a
  document whose id is taken.
\<close>

definition write_transaction :: "node \<Rightarrow> db \<Rightarrow> transaction \<Rightarrow> db" where
  "write_transaction self conn signed_transaction =
     (let assignee' = (if nodes_except_me self \<noteq> [] then random_choice self (nodes_except_me self)
                       else me self);
          doc = signed_transaction\<lparr>assignee := Some assignee'\<rparr>
      in if tx_id doc \<in> set (map tx_id (backlog conn)) then conn
         else conn\<lparr>backlog := backlog conn @ [doc]\<rparr>)"

text \<open>
  The loop over the conditions of one transaction that
  \<open>get_backlog_currency_ids\<close> and \<open>get_bigchain_currency_ids\<close> share, text for
  text. As in \<open>get_owned_ids\<close>, \<open>tx_input\<close> is assigned only where the owner is
  found and is read for every condition of a currency transaction.
\<close>

fun currency_conditions ::
  "node \<Rightarrow> pubkey \<Rightarrow> transaction \<Rightarrow> condition list \<Rightarrow> currency_id option \<Rightarrow> currency_id list
     \<Rightarrow> error + (currency_id option \<times> currency_id list)" where
  "currency_conditions self owner tx [] tx_in owned = Inr (tx_in, owned)"
| "currency_conditions self owner tx (c # cs) tx_in owned =
     (let entry = (case previous (data_payload tx) of
                     None \<Rightarrow> Inl KeyError
                   | Some prev \<Rightarrow> Inr (Some (CurrencyId (tx_id tx) (cid c) prev)))
      in case (if length (new_owners c) = 1 then
                 (case public_key (details c) of
                    None \<Rightarrow> Inl KeyError
                  | Some pk \<Rightarrow> if pk = owner then entry else Inr tx_in)
               else if util_condition_details_has_owner self (details c) owner then entry
               else Inr tx_in) of
           Inl e \<Rightarrow> Inl e
         | Inr tx_in' \<Rightarrow>
             (if tool_get_payload_type self tx = ''currency'' then
                (case tx_in' of
                   None \<Rightarrow> Inl UnboundLocalError
                 | Some i \<Rightarrow> currency_conditions self owner tx cs tx_in' (owned @ [i]))
              else currency_conditions self owner tx cs tx_in' owned))"

fun backlog_currency_transactions ::
  "node \<Rightarrow> pubkey \<Rightarrow> transaction list \<Rightarrow> currency_id option \<Rightarrow> currency_id list
     \<Rightarrow> error + currency_id list" where
  "backlog_currency_transactions self owner [] tx_in owned = Inr owned"
| "backlog_currency_transactions self owner (tx # txs) tx_in owned =
     (case currency_conditions self owner tx (conditions tx) tx_in owned of
        Inl e \<Rightarrow> Inl e
      | Inr (tx_in', owned') \<Rightarrow> backlog_currency_transactions self owner txs tx_in' owned')"

definition get_backlog_currency_ids :: "node \<Rightarrow> db \<Rightarrow> pubkey \<Rightarrow> error + currency_id list" where
  "get_backlog_currency_ids self conn owner =
     backlog_currency_transactions self owner
       (filter (\<lambda>tx. list_ex (\<lambda>c. owner \<in> set (new_owners c)) (conditions tx)) (backlog conn))
       None []"

fun bigchain_currency_transactions ::
  "node \<Rightarrow> db \<Rightarrow> pubkey \<Rightarrow> transaction list \<Rightarrow> currency_id option \<Rightarrow> currency_id list
     \<Rightarrow> error + currency_id list" where
  "bigchain_currency_transactions self conn owner [] tx_in owned = Inr owned"
| "bigchain_currency_transactions self conn owner (tx # txs) tx_in owned =
     (case get_blocks_status_containing_tx self conn (tx_id tx) of
        Inl e \<Rightarrow> Inl e
      | Inr None \<Rightarrow> Inl AttributeError
      | Inr (Some validity) \<Rightarrow>
          (if BLOCK_VALID \<notin> set (map snd validity) \<and> BLOCK_UNDECIDED \<notin> set (map snd validity)
           then bigchain_currency_transactions self conn owner txs tx_in owned
           else
             (case currency_conditions self owner tx (conditions tx) tx_in owned of
                Inl e \<Rightarrow> Inl e
              | Inr (tx_in', owned') \<Rightarrow>
                  bigchain_currency_transactions self conn owner txs tx_in' owned')))"

definition get_bigchain_currency_ids :: "node \<Rightarrow> db \<Rightarrow> pubkey \<Rightarrow> error + currency_id list" where
  "get_bigchain_currency_ids self conn owner =
     bigchain_currency_transactions self conn owner (owned_query conn owner) None []"

definition get_transaction_from_backlog :: "db \<Rightarrow> hash \<Rightarrow> transaction option" where
  "get_transaction_from_backlog conn txid' =
     (case filter (\<lambda>tx. tx_id tx = txid') (backlog conn) of [] \<Rightarrow> None | tx # _ \<Rightarrow> Some tx)"

definition get_last_currency :: "node \<Rightarrow> db \<Rightarrow> pubkey \<Rightarrow> error + last_currency" where
  "get_last_currency self conn pk =
     (case get_backlog_currency_ids self conn pk of
        Inl e \<Rightarrow> Inl e
      | Inr backloglist \<Rightarrow>
          (case get_bigchain_currency_ids self conn pk of
             Inl e \<Rightarrow> Inl e
           | Inr bigchainlist \<Rightarrow>
               (case tool_get_last_txid self (backloglist @ bigchainlist) of
                  None \<Rightarrow> Inr Init
                | Some lastid \<Rightarrow>
                    (case get_transaction_from_backlog conn (currency_txid lastid) of
                       Some tx \<Rightarrow> Inr (LastTx tx)
                     | None \<Rightarrow>
                         (case get_transaction self conn (currency_txid lastid) of
                            Inl e \<Rightarrow> Inl e
                          | Inr None \<Rightarrow> Inr NoTransaction
                          | Inr (Some tx) \<Rightarrow> Inr (LastTx tx))))))"

text \<open>
  \<open>float(cost)\<close> of a Python int raises \<open>OverflowError\<close> when the int rounds to a
  double beyond the largest finite one; otherwise the double has the sign of the int.
\<close>

definition float_overflows :: "int \<Rightarrow> bool" where
  "float_overflows i = (\<bar>i\<bar> \<ge> 2 ^ 1024 - 2 ^ 970)"

text \<open>\<open>last_tx['id']\<close>: a \<open>TypeError\<close> on the text \<open>'init'\<close> and on \<open>None\<close>.\<close>

definition last_tx_id :: "last_currency \<Rightarrow> error + hash" where
  "last_tx_id l = (case l of LastTx tx \<Rightarrow> Inr (tx_id tx) | _ \<Rightarrow> Inl TypeError)"

text \<open>
  The two legs of \<open>Bigchain.transfer_currency\<close>, as that method builds and signs them
  once the balance check has passed. The two payloads that \<open>tool.get_pair_payload\<close>
  returns are taken to be dicts of their own, so that filling one leaves the other and
  the transaction already created as they are.
\<close>

definition sender_leg ::
  "node \<Rightarrow> pubkey \<Rightarrow> pubkey \<Rightarrow> payload \<Rightarrow> last_currency \<Rightarrow> int \<Rightarrow> error + transaction" where
  "sender_leg self sender_pub receiver_pub payload_dic sender_last_tx sender_account =
     (let sender_payload = fst (tool_get_pair_payload self payload_dic) in
      case last_tx_id sender_last_tx of
        Inl e \<Rightarrow> Inl e
      | Inr prev \<Rightarrow>
          (let sender_payload' = sender_payload\<lparr>account := Some sender_account,
                                   previous := Some prev, trader := Some receiver_pub\<rparr>;
               sender_tx = consensus_create_transaction self [me self] [sender_pub] None ''CREATE''
                             sender_payload'
           in Inr (consensus_sign_transaction self sender_tx (me_private self))))"

definition receiver_leg ::
  "node \<Rightarrow> db \<Rightarrow> pubkey \<Rightarrow> pubkey \<Rightarrow> payload \<Rightarrow> error + transaction" where
  "receiver_leg self conn sender_pub receiver_pub payload_dic =
     (let receiver_payload = snd (tool_get_pair_payload self payload_dic) in
      case get_last_currency self conn receiver_pub of
        Inl e \<Rightarrow> Inl e
      | Inr receiver_last_tx \<Rightarrow>
          (case tool_get_current_account self receiver_last_tx of
             Inl e \<Rightarrow> Inl e
           | Inr receiver_account \<Rightarrow>
               (case (if receiver_last_tx = Init then Inr ''genesis''
                      else last_tx_id receiver_last_tx) of
                  Inl e \<Rightarrow> Inl e
                | Inr prev \<Rightarrow>
                    (let receiver_payload' = receiver_payload\<lparr>account := Some receiver_account,
                                               previous := Some prev, trader := Some sender_pub\<rparr>;
                         receiver_tx = consensus_create_transaction self [me self] [receiver_pub]
                                         None ''CREATE'' receiver_payload'
                     in Inr (consensus_sign_transaction self receiver_tx (me_private self))))))"

text \<open>
  The last statement of \<open>Bigchain.transfer_currency\<close>: both legs are written to the
  backlog when both are valid, and \<open>InvalidTransaction\<close> is raised otherwise;
  \<open>and\<close> does not validate the receiver leg when the sender leg is invalid.
\<close>

definition submit_legs ::
  "node \<Rightarrow> db \<Rightarrow> transaction \<Rightarrow> transaction \<Rightarrow> (error + unit) \<times> db" where
  "submit_legs self conn sender_tx_signed receiver_tx_signed =
     (case is_valid_transaction self conn sender_tx_signed of
        Inl e \<Rightarrow> (Inl e, conn)
      | Inr None \<Rightarrow> (Inl InvalidTransaction, conn)
      | Inr (Some _) \<Rightarrow>
          (case is_valid_transaction self conn receiver_tx_signed of
             Inl e \<Rightarrow> (Inl e, conn)
           | Inr None \<Rightarrow> (Inl InvalidTransaction, conn)
           | Inr (Some _) \<Rightarrow>
               (Inr (),
                write_transaction self (write_transaction self conn sender_tx_signed)
                  receiver_tx_signed)))"

text \<open>
  The branch of \<open>Bigchain.transfer_currency\<close> taken when the balance suffices.
\<close>

definition transfer_legs ::
  "node \<Rightarrow> db \<Rightarrow> pubkey \<Rightarrow> pubkey \<Rightarrow> payload \<Rightarrow> last_currency \<Rightarrow> int \<Rightarrow> (error + unit) \<times> db" where
  "transfer_legs self conn sender_pub receiver_pub payload_dic sender_last_tx sender_account =
     (case sender_leg self sender_pub receiver_pub payload_dic sender_last_tx sender_account of
        Inl e \<Rightarrow> (Inl e, conn)
      | Inr sender_tx_signed \<Rightarrow>
          (case receiver_leg self conn sender_pub receiver_pub payload_dic of
             Inl e \<Rightarrow> (Inl e, conn)
           | Inr receiver_tx_signed \<Rightarrow>
               submit_legs self conn sender_tx_signed receiver_tx_signed))"

text \<open>
  \<open>Bigchain.transfer_currency\<close>: the exception it raises, if any, and the store after
  the call.
\<close>

definition transfer_currency ::
  "node \<Rightarrow> db \<Rightarrow> pubkey \<Rightarrow> string \<Rightarrow> pubkey \<Rightarrow> payload \<Rightarrow> (error + unit) \<times> db" where
  "transfer_currency self conn sender_pub sender_priv receiver_pub payload_dic =
     (if payload_validate_payload_format self payload_dic then
        (case amount payload_dic of
           None \<Rightarrow> (Inl KeyError, conn)
         | Some cost \<Rightarrow>
             (if float_overflows cost then (Inl OverflowError, conn)
              else if cost \<le> 0 then (Inl InvalidPayload, conn)
              else
                (case get_last_currency self conn sender_pub of
                   Inl e \<Rightarrow> (Inl e, conn)
                 | Inr sender_last_tx \<Rightarrow>
                     (case tool_get_current_account self sender_last_tx of
                        Inl e \<Rightarrow> (Inl e, conn)
                      | Inr sender_account \<Rightarrow>
                          (if sender_account \<ge> cost then
                             transfer_legs self conn sender_pub receiver_pub payload_dic
                               sender_last_tx sender_account
                           else (Inl BalanceNotEnough, conn))))))
      else (Inl InvalidPayload, conn))"

section \<open>Notions used to state the claims\<close>

text \<open>
  The election status of a stored block, as the queries compute it from the election
  information of the block; whether a transaction id lies in some block that is not
  INVALID (VALID or UNDECIDED); and whether at most one VALID block contains it.
\<close>

definition stored_status :: "node \<Rightarrow> block \<Rightarrow> status" where
  "stored_status self b = block_election_status self (election_info b)"

definition resolves :: "node \<Rightarrow> db \<Rightarrow> hash \<Rightarrow> bool" where
  "resolves self conn t =
     list_ex (\<lambda>b. stored_status self b \<noteq> BLOCK_INVALID) (get_all_transaction_id conn t)"

definition uncorrupted :: "node \<Rightarrow> db \<Rightarrow> hash \<Rightarrow> bool" where
  "uncorrupted self conn t =
     (length (filter (\<lambda>b. stored_status self b = BLOCK_VALID) (get_all_transaction_id conn t)) \<le> 1)"

section \<open>Sample federation data\<close>

definition mk_vote :: "pubkey \<Rightarrow> string \<Rightarrow> hash \<Rightarrow> bool \<Rightarrow> vote" where
  "mk_vote pk sig bid decision =
     \<lparr>node_pubkey = pk, signature = sig, voting_for_block = bid, previous_block = ''genesis'',
      is_block_valid = decision, invalid_reason = None, vote_timestamp = ''1''\<rparr>"

definition mk_block :: "hash \<Rightarrow> transaction list \<Rightarrow> pubkey list \<Rightarrow> vote list \<Rightarrow> block" where
  "mk_block bid txs vs vts =
     \<lparr>block_id = bid, block_timestamp = ''1'', transactions = txs, block_node_pubkey = ''n1'',
      voters = vs, block_signature = ''blocksig'', votes = vts, block_number = None\<rparr>"

text \<open>
  A node for which a vote verifies exactly when its signature is the text \<open>ok\<close>, with
  a plugin that accepts every transaction and block, builds a transaction with one
  fulfillment and one single-owner condition, and records the operation and the payload
  it is given.
\<close>

definition sample_create_transaction ::
  "pubkey list \<Rightarrow> pubkey list \<Rightarrow> tx_input option \<Rightarrow> string \<Rightarrow> payload \<Rightarrow> transaction" where
  "sample_create_transaction owners_now owners_new inp op pl =
     \<lparr>tx_id = ''tx-'' @ op @ ''-'' @ concat owners_new,
      fulfillments = [\<lparr>fid = 0, current_owners = owners_now, input = inp\<rparr>],
      conditions = [\<lparr>cid = 0, new_owners = owners_new,
                     details = Details (case owners_new of [pk] \<Rightarrow> Some pk | _ \<Rightarrow> None) []\<rparr>],
      operation = op, timestamp = ''1'', data_payload = pl, assignee = None\<rparr>"

definition sample_get_current_account :: "last_currency \<Rightarrow> error + int" where
  "sample_get_current_account l =
     (case l of
        Init \<Rightarrow> Inr 0
      | NoTransaction \<Rightarrow> Inl TypeError
      | LastTx t \<Rightarrow> (case account (data_payload t) of None \<Rightarrow> Inl KeyError | Some a \<Rightarrow> Inr a))"

definition sample_node :: node where
  "sample_node =
     \<lparr>me = ''n1'', me_private = ''n1priv'', nodes_except_me = [''n2'', ''n3''],
      consensus_verify_vote_signature = (\<lambda>b v. signature v = ''ok''),
      consensus_validate_transaction = (\<lambda>conn tx. Inr tx),
      consensus_validate_block = (\<lambda>conn b. Inr b),
      consensus_create_transaction = sample_create_transaction,
      consensus_sign_transaction = (\<lambda>tx key. tx),
      util_verify_vote_signature = (\<lambda>b v. signature v = ''ok''),
      util_condition_details_has_owner = (\<lambda>d owner. False),
      util_timestamp = ''2'',
      crypto_hash_block = (\<lambda>b. ''block-'' @ concat (map tx_id (transactions b))),
      crypto_sign_block = (\<lambda>key b. ''signed-'' @ key),
      random_choice = hd,
      payload_validate_payload_format = (\<lambda>pl. amount pl \<noteq> None),
      tool_get_payload_type = (\<lambda>tx. case category (data_payload tx) of None \<Rightarrow> [] | Some c \<Rightarrow> c),
      tool_get_last_txid = (\<lambda>ids. case ids of [] \<Rightarrow> None | _ \<Rightarrow> Some (last ids)),
      tool_get_current_account = sample_get_current_account,
      tool_get_pair_payload = (\<lambda>pl. (pl\<lparr>issue := Some ''cost''\<rparr>, pl\<lparr>issue := Some ''earn''\<rparr>))\<rparr>"

definition five_voter_block :: block where
  "five_voter_block =
     mk_block ''b5'' [] [''n1'', ''n2'', ''n3'', ''n4'', ''n5'']
       [mk_vote ''n1'' ''ok'' ''b5'' True, mk_vote ''n2'' ''ok'' ''b5'' True,
        mk_vote ''n3'' ''ok'' ''b5'' False, mk_vote ''n4'' ''ok'' ''b5'' False,
        mk_vote ''n5'' ''forged'' ''b5'' True]"

definition four_voter_block :: block where
  "four_voter_block =
     mk_block ''b4'' [] [''n1'', ''n2'', ''n3'', ''n4'']
       [mk_vote ''n1'' ''ok'' ''b4'' True, mk_vote ''n2'' ''ok'' ''b4'' True,
        mk_vote ''n3'' ''ok'' ''b4'' False, mk_vote ''n4'' ''ok'' ''b4'' False]"

definition empty_payload :: payload where
  "empty_payload =
     \<lparr>message = None, category = None, issue = None, amount = None, account = None,
      previous = None, trader = None, asset = None\<rparr>"

text \<open>A transaction with one fulfillment and one single-owner condition per new owner.\<close>

definition mk_tx :: "hash \<Rightarrow> tx_input option \<Rightarrow> pubkey list \<Rightarrow> transaction" where
  "mk_tx tid inp owners =
     \<lparr>tx_id = tid,
      fulfillments = [\<lparr>fid = 0, current_owners = [''alice''], input = inp\<rparr>],
      conditions = map (\<lambda>(k, pk). \<lparr>cid = k, new_owners = [pk], details = Details (Some pk) []\<rparr>)
                     (zip [0 ..< length owners] owners),
      operation = (if inp = None then ''CREATE'' else ''TRANSFER''), timestamp = ''1'',
      data_payload = empty_payload, assignee = None\<rparr>"

definition votes_for :: "hash \<Rightarrow> vote list" where
  "votes_for bid = [mk_vote ''n1'' ''ok'' bid True, mk_vote ''n2'' ''ok'' bid True]"

definition votes_against :: "hash \<Rightarrow> vote list" where
  "votes_against bid = [mk_vote ''n1'' ''ok'' bid False, mk_vote ''n2'' ''ok'' bid False]"

definition mk_db :: "block list \<Rightarrow> db" where
  "mk_db bs = \<lparr>bigchain = bs, backlog = [], block_writes = []\<rparr>"

text \<open>
  Two blocks without votes, each with its own transaction that spends output 0 of
  \<open>t0\<close>.
\<close>

definition undecided_spends_db :: db where
  "undecided_spends_db =
     mk_db [mk_block ''bA'' [mk_tx ''t1'' (Some (TxInput ''t0'' 0)) [''bob'']]
              [''n1'', ''n2'', ''n3''] [],
            mk_block ''bB'' [mk_tx ''t2'' (Some (TxInput ''t0'' 0)) [''carol'']]
              [''n1'', ''n2'', ''n3''] []]"

text \<open>
  A block voted VALID with the transaction \<open>t1\<close> that spends output 0 of \<open>t0\<close>, and
  a block voted INVALID with another transaction that spends it.
\<close>

definition spent_once_db :: db where
  "spent_once_db =
     mk_db [mk_block ''bV'' [mk_tx ''t1'' (Some (TxInput ''t0'' 0)) [''bob'']]
              [''n1'', ''n2'', ''n3''] (votes_for ''bV''),
            mk_block ''bI'' [mk_tx ''t2'' (Some (TxInput ''t0'' 0)) [''carol'']]
              [''n1'', ''n2'', ''n3''] (votes_against ''bI'')]"

text \<open>The transaction \<open>t1\<close> in a block voted INVALID and again in a block voted VALID.\<close>

definition replayed_db :: db where
  "replayed_db =
     mk_db [mk_block ''bI'' [mk_tx ''t1'' None [''bob'']] [''n1'', ''n2'', ''n3'']
              (votes_against ''bI''),
            mk_block ''bV'' [mk_tx ''t1'' None [''bob'']] [''n1'', ''n2'', ''n3'']
              (votes_for ''bV'')]"

text \<open>A corrupted chain: the transaction \<open>t1\<close> in two blocks that are both voted VALID.\<close>

definition corrupt_db :: db where
  "corrupt_db =
     mk_db [mk_block ''bV'' [mk_tx ''t1'' None [''bob'']] [''n1'', ''n2'', ''n3'']
              (votes_for ''bV''),
            mk_block ''bW'' [mk_tx ''t1'' None [''bob'']] [''n1'', ''n2'', ''n3'']
              (votes_for ''bW'')]"

text \<open>
  A node whose plugin validates a transaction by looking up the transaction of its first
  input in the chain, and a new block with a transaction that spends output 0 of \<open>t1\<close>.
\<close>

definition checking_node :: node where
  "checking_node =
     sample_node\<lparr>consensus_validate_transaction :=
       (\<lambda>conn tx.
          (case fulfillments tx of
             [] \<Rightarrow> Inr tx
           | f # _ \<Rightarrow>
               (case input f of
                  None \<Rightarrow> Inr tx
                | Some i \<Rightarrow>
                    (case get_transaction sample_node conn (txid i) of
                       Inl e \<Rightarrow> Inl e
                     | Inr None \<Rightarrow> Inl TransactionDoesNotExist
                     | Inr (Some _) \<Rightarrow> Inr tx))))\<rparr>"

definition spending_block :: block where
  "spending_block =
     mk_block ''bN'' [mk_tx ''t3'' (Some (TxInput ''t1'' 0)) [''carol'']]
       [''n1'', ''n2'', ''n3''] []"

text \<open>A block that carries a vote of node \<open>n1\<close> whose signature does not verify.\<close>

definition forged_vote_block :: block where
  "forged_vote_block =
     mk_block ''bF'' [mk_tx ''t1'' None [''bob'']] [''n1'', ''n2'', ''n3'']
       [mk_vote ''n2'' ''ok'' ''bF'' True, mk_vote ''n1'' ''forged'' ''bF'' True]"

text \<open>
  A stored block that another node has voted on and numbered 5, and the copy of it that
  this node read before that vote was written.
\<close>

definition stale_block :: block where
  "stale_block = mk_block ''b1'' [mk_tx ''t1'' None [''bob'']] [''n1'', ''n2'', ''n3''] []"

definition numbered_db :: db where
  "numbered_db =
     mk_db [stale_block\<lparr>votes := [mk_vote ''n2'' ''ok'' ''b1'' True], block_number := Some 5\<rparr>]"

text \<open>
  A block without votes whose transaction \<open>t1\<close> has two outputs: output 0 for alice
  and output 1 for bob.
\<close>

definition two_outputs_db :: db where
  "two_outputs_db =
     mk_db [mk_block ''b1'' [mk_tx ''t1'' None [''alice'', ''bob'']] [''n1'', ''n2'', ''n3''] []]"

text \<open>
  A block voted VALID with a currency transaction that charges alice's account to 100,
  a transfer payload for a given amount, and a node whose plugin rejects every
  transaction for its signature.
\<close>

definition charge_tx :: transaction where
  "charge_tx =
     (mk_tx ''c1'' None [''alice''])
       \<lparr>data_payload := \<lparr>message = None, category = Some ''currency'', issue = Some ''charge'',
                          amount = Some 100, account = Some 100, previous = Some ''genesis'',
                          trader = Some ''node'', asset = None\<rparr>\<rparr>"

definition currency_db :: db where
  "currency_db = mk_db [mk_block ''bC'' [charge_tx] [''n1'', ''n2'', ''n3''] (votes_for ''bC'')]"

definition transfer_payload :: "int \<Rightarrow> payload" where
  "transfer_payload n = empty_payload\<lparr>category := Some ''currency'', amount := Some n\<rparr>"

definition rejecting_node :: node where
  "rejecting_node = sample_node\<lparr>consensus_validate_transaction := (\<lambda>conn tx. Inl InvalidSignature)\<rparr>"

section \<open>Tallying lemmas\<close>

lemma ceiling_half: "\<lceil>real n / 2\<rceil> = (int n + 1) div 2"
proof -
  have "real n / 2 = real_of_int (int n) / real_of_int 2" by simp
  then have "\<lceil>real n / 2\<rceil> = - (- int n div 2)"
    by (simp only: ceiling_divide_eq_div)
  then show ?thesis by presburger
qed

lemma floor_half: "\<lfloor>real n / 2\<rfloor> = int n div 2"
proof -
  have "real n / 2 = real_of_int (int n) / real_of_int 2" by simp
  then show ?thesis by (simp only: floor_divide_of_int_eq)
qed

lemma tally_valid:
  "sum_list (map2 (\<lambda>c v. (of_bool c :: int) * of_bool v) (map f xs) (map g xs))
     = int (length (filter (\<lambda>x. g x \<and> f x) xs))"
  by (induction xs) auto

lemma length_filter_compl:
  "int (length xs) - int (length (filter P xs)) = int (length (filter (\<lambda>x. \<not> P x) xs))"
  by (induction xs) auto

lemma election_tally:
  "block_election_status self block =
     (let n = length (voters block);
          ok = (\<lambda>v. consensus_verify_vote_signature self block v \<and> is_block_valid v)
      in if int (length (filter (\<lambda>v. \<not> ok v) (votes block))) \<ge> \<lceil>real n / 2\<rceil> then BLOCK_INVALID
         else if int (length (filter ok (votes block))) > \<lfloor>real n / 2\<rfloor> then BLOCK_VALID
         else BLOCK_UNDECIDED)"
  unfolding block_election_status_def Let_def tally_valid
  by (simp only: length_map length_zip min.idem length_filter_compl)

lemma length_filter_split:
  "length (filter (\<lambda>x. \<not> (P x \<and> Q x)) xs)
     = length (filter (\<lambda>x. P x \<and> \<not> Q x) xs) + length (filter (\<lambda>x. \<not> P x) xs)"
  by (induction xs) auto

section \<open>Claims about the election status\<close>

text \<open>
  C2 (as amended). In \<open>block_election_status\<close> the invalid votes are all the votes
  that are not counted as valid: a vote whose signature does not verify is never counted
  toward \<open>n_valid\<close> and is always counted toward \<open>n_invalid\<close>. Consequently, for a
  block with 5 voters holding two signature-valid votes for, two signature-valid votes
  against and one vote with an invalid signature, the election status is INVALID.
\<close>

theorem election_unverified_vote_counts_invalid:
  "block_election_status self block =
     (let n = length (voters block);
          n_valid = int (length (filter (\<lambda>v. consensus_verify_vote_signature self block v
                                            \<and> is_block_valid v) (votes block)));
          n_invalid = int (length (filter (\<lambda>v. consensus_verify_vote_signature self block v
                                            \<and> \<not> is_block_valid v) (votes block)))
                    + int (length (filter (\<lambda>v. \<not> consensus_verify_vote_signature self block v)
                                      (votes block)))
      in if n_invalid \<ge> \<lceil>real n / 2\<rceil> then BLOCK_INVALID
         else if n_valid > \<lfloor>real n / 2\<rfloor> then BLOCK_VALID
         else BLOCK_UNDECIDED)
   \<and> (length (voters block) = 5
        \<and> length (filter (\<lambda>v. consensus_verify_vote_signature self block v
                              \<and> is_block_valid v) (votes block)) = 2
        \<and> length (filter (\<lambda>v. consensus_verify_vote_signature self block v
                              \<and> \<not> is_block_valid v) (votes block)) = 2
        \<and> length (filter (\<lambda>v. \<not> consensus_verify_vote_signature self block v)
                        (votes block)) = 1
      \<longrightarrow> block_election_status self block = BLOCK_INVALID)"
proof -
  let ?ver = "consensus_verify_vote_signature self block"
  have split: "int (length (filter (\<lambda>v. \<not> (?ver v \<and> is_block_valid v)) (votes block)))
      = int (length (filter (\<lambda>v. ?ver v \<and> \<not> is_block_valid v) (votes block)))
        + int (length (filter (\<lambda>v. \<not> ?ver v) (votes block)))"
    by (simp only: length_filter_split of_nat_add)
  have general: "block_election_status self block =
     (let n = length (voters block);
          n_valid = int (length (filter (\<lambda>v. ?ver v \<and> is_block_valid v) (votes block)));
          n_invalid = int (length (filter (\<lambda>v. ?ver v \<and> \<not> is_block_valid v) (votes block)))
                    + int (length (filter (\<lambda>v. \<not> ?ver v) (votes block)))
      in if n_invalid \<ge> \<lceil>real n / 2\<rceil> then BLOCK_INVALID
         else if n_valid > \<lfloor>real n / 2\<rfloor> then BLOCK_VALID
         else BLOCK_UNDECIDED)"
    unfolding election_tally [of self block] Let_def split ..
  have scenario: "block_election_status self block = BLOCK_INVALID"
    if "length (voters block) = 5"
      and "length (filter (\<lambda>v. ?ver v \<and> is_block_valid v) (votes block)) = 2"
      and "length (filter (\<lambda>v. ?ver v \<and> \<not> is_block_valid v) (votes block)) = 2"
      and "length (filter (\<lambda>v. \<not> ?ver v) (votes block)) = 1"
    unfolding general Let_def ceiling_half floor_half using that by simp
  show ?thesis by (rule conjI [OF general]) (use scenario in blast)
qed

theorem election_unverified_vote_counts_invalid_witness:
  "length (voters five_voter_block) = 5
   \<and> length (filter (\<lambda>v. consensus_verify_vote_signature sample_node five_voter_block v
                         \<and> is_block_valid v) (votes five_voter_block)) = 2
   \<and> length (filter (\<lambda>v. consensus_verify_vote_signature sample_node five_voter_block v
                         \<and> \<not> is_block_valid v) (votes five_voter_block)) = 2
   \<and> length (filter (\<lambda>v. \<not> consensus_verify_vote_signature sample_node five_voter_block v)
                   (votes five_voter_block)) = 1
   \<and> block_election_status sample_node five_voter_block = BLOCK_INVALID"
proof -
  have h: "length (voters five_voter_block) = 5
   \<and> length (filter (\<lambda>v. consensus_verify_vote_signature sample_node five_voter_block v
                         \<and> is_block_valid v) (votes five_voter_block)) = 2
   \<and> length (filter (\<lambda>v. consensus_verify_vote_signature sample_node five_voter_block v
                         \<and> \<not> is_block_valid v) (votes five_voter_block)) = 2
   \<and> length (filter (\<lambda>v. \<not> consensus_verify_vote_signature sample_node five_voter_block v)
                   (votes five_voter_block)) = 1"
    by (simp add: five_voter_block_def sample_node_def mk_block_def mk_vote_def)
  with election_unverified_vote_counts_invalid [of sample_node five_voter_block]
  show ?thesis by blast
qed

text \<open>
  C2 as stated fails: with 5 voters, two signed votes for, two signed votes against and
  one vote whose signature does not verify, the status is INVALID, not UNDECIDED.
\<close>

theorem election_five_voters_counterexample:
  "length (voters five_voter_block) = 5
   \<and> map (\<lambda>v. (consensus_verify_vote_signature sample_node five_voter_block v, is_block_valid v))
         (votes five_voter_block)
       = [(True, True), (True, True), (True, False), (True, False), (False, True)]
   \<and> block_election_status sample_node five_voter_block \<noteq> BLOCK_UNDECIDED"
  by (simp add: block_election_status_def ceiling_half floor_half
        five_voter_block_def sample_node_def mk_block_def mk_vote_def)

text \<open>
  C3. For every block whose votes all carry valid signatures, the status is INVALID if
  the number of votes against is at least the ceiling of n/2 (n the number of voters),
  else VALID if the number of votes for exceeds the floor of n/2, else UNDECIDED. In
  particular, with 4 voters, two signed votes for and two signed votes against give
  INVALID.
\<close>

theorem election_all_signed:
  assumes "\<forall>v \<in> set (votes block). consensus_verify_vote_signature self block v"
  shows "block_election_status self block =
     (let n = length (voters block);
          n_invalid = int (length (filter (\<lambda>v. \<not> is_block_valid v) (votes block)));
          n_valid = int (length (filter is_block_valid (votes block)))
      in if n_invalid \<ge> \<lceil>real n / 2\<rceil> then BLOCK_INVALID
         else if n_valid > \<lfloor>real n / 2\<rfloor> then BLOCK_VALID
         else BLOCK_UNDECIDED)
   \<and> (length (voters block) = 4
        \<and> map is_block_valid (votes block) = [True, True, False, False]
      \<longrightarrow> block_election_status self block = BLOCK_INVALID)"
proof -
  let ?ver = "consensus_verify_vote_signature self block"
  have f1: "filter (\<lambda>v. \<not> (?ver v \<and> is_block_valid v)) (votes block)
              = filter (\<lambda>v. \<not> is_block_valid v) (votes block)"
    using assms by (intro filter_cong) auto
  have f2: "filter (\<lambda>v. ?ver v \<and> is_block_valid v) (votes block)
              = filter is_block_valid (votes block)"
    using assms by (intro filter_cong) auto
  have general: "block_election_status self block =
     (let n = length (voters block);
          n_invalid = int (length (filter (\<lambda>v. \<not> is_block_valid v) (votes block)));
          n_valid = int (length (filter is_block_valid (votes block)))
      in if n_invalid \<ge> \<lceil>real n / 2\<rceil> then BLOCK_INVALID
         else if n_valid > \<lfloor>real n / 2\<rfloor> then BLOCK_VALID
         else BLOCK_UNDECIDED)"
    unfolding election_tally [of self block] Let_def f1 f2 ..
  have tie: "block_election_status self block = BLOCK_INVALID"
    if n: "length (voters block) = 4"
      and m: "map is_block_valid (votes block) = [True, True, False, False]"
  proof -
    have "length (filter (\<lambda>v. \<not> is_block_valid v) (votes block))
            = length (filter Not (map is_block_valid (votes block)))"
      by (simp add: filter_map comp_def)
    then have "length (filter (\<lambda>v. \<not> is_block_valid v) (votes block)) = 2"
      by (simp add: m)
    then show ?thesis
      unfolding general Let_def ceiling_half floor_half using n by simp
  qed
  show ?thesis by (rule conjI [OF general]) (intro impI, elim conjE, rule tie)
qed

theorem election_all_signed_witness:
  "list_all (consensus_verify_vote_signature sample_node four_voter_block) (votes four_voter_block)
   \<and> length (voters four_voter_block) = 4
   \<and> map is_block_valid (votes four_voter_block) = [True, True, False, False]
   \<and> block_election_status sample_node four_voter_block = BLOCK_INVALID"
proof -
  have h: "\<forall>v \<in> set (votes four_voter_block).
             consensus_verify_vote_signature sample_node four_voter_block v"
    by (simp add: four_voter_block_def sample_node_def mk_block_def mk_vote_def)
  have g: "length (voters four_voter_block) = 4
     \<and> map is_block_valid (votes four_voter_block) = [True, True, False, False]"
    by (simp add: four_voter_block_def mk_block_def mk_vote_def)
  have l: "list_all (consensus_verify_vote_signature sample_node four_voter_block)
             (votes four_voter_block)"
    using h by (simp only: list_all_iff)
  from election_all_signed [OF h] g l show ?thesis by blast
qed

section \<open>Lemmas about the chain queries\<close>

lemmas sample_defs =
  sample_node_def sample_create_transaction_def sample_get_current_account_def
  mk_vote_def mk_block_def mk_tx_def mk_db_def votes_for_def votes_against_def empty_payload_def

lemmas query_defs =
  get_spent_def spending_transactions_def get_transaction_def
  get_blocks_status_containing_tx_def search_block_election_on_index_def
  get_all_transaction_id_def dict_of_def election_info_def block_election_status_def
  stored_status_def resolves_def uncorrupted_def ceiling_half floor_half

lemma dict_set_fresh: "k \<notin> fst ` set d \<Longrightarrow> dict_set k v d = d @ [(k, v)]"
  by (induction d) auto

lemma foldl_dict_set_distinct:
  "distinct (map fst (acc @ kvs)) \<Longrightarrow> foldl (\<lambda>d (k, v). dict_set k v d) acc kvs = acc @ kvs"
proof (induction kvs arbitrary: acc)
  case Nil
  then show ?case by simp
next
  case (Cons kv kvs)
  obtain k v where kv: "kv = (k, v)" by (cases kv)
  from Cons.prems have fresh: "k \<notin> fst ` set acc" by (auto simp: kv)
  from Cons.prems have d: "distinct (map fst ((acc @ [(k, v)]) @ kvs))" by (auto simp: kv)
  show ?case
    using Cons.IH [OF d] by (simp add: kv dict_set_fresh [OF fresh])
qed

lemma dict_of_distinct: "distinct (map fst kvs) \<Longrightarrow> dict_of kvs = kvs"
  unfolding dict_of_def using foldl_dict_set_distinct [of "[]" kvs] by simp

lemma count_list_map: "count_list (map f xs) a = length (filter (\<lambda>x. f x = a) xs)"
  by (induction xs) auto

lemma block_id_election_info: "block_id (election_info b) = block_id b"
  by (simp add: election_info_def)

lemma distinct_get_all:
  "distinct (map block_id (bigchain conn)) \<Longrightarrow> distinct (map block_id (get_all_transaction_id conn t))"
  unfolding get_all_transaction_id_def by (rule distinct_map_filter)

lemma status_alist:
  assumes "distinct (map block_id (bigchain conn))"
  shows "dict_of (map (\<lambda>b. (block_id b, block_election_status self b))
                   (search_block_election_on_index conn t))
         = map (\<lambda>b. (block_id b, stored_status self b)) (get_all_transaction_id conn t)"
proof -
  have e: "map (\<lambda>b. (block_id b, block_election_status self b)) (search_block_election_on_index conn t)
      = map (\<lambda>b. (block_id b, stored_status self b)) (get_all_transaction_id conn t)"
    by (simp add: search_block_election_on_index_def stored_status_def comp_def
          block_id_election_info)
  have "distinct (map fst (map (\<lambda>b. (block_id b, stored_status self b))
                            (get_all_transaction_id conn t)))"
    using distinct_get_all [OF assms, of t] by (simp add: comp_def)
  then show ?thesis unfolding e by (rule dict_of_distinct)
qed

lemma blocks_status:
  assumes "distinct (map block_id (bigchain conn))"
  shows "get_blocks_status_containing_tx self conn t =
    (if length (filter (\<lambda>b. stored_status self b = BLOCK_VALID) (get_all_transaction_id conn t)) > 1
     then Inl ChainCorruption
     else if get_all_transaction_id conn t = [] then Inr None
     else Inr (Some (map (\<lambda>b. (block_id b, stored_status self b)) (get_all_transaction_id conn t))))"
proof -
  have ne: "search_block_election_on_index conn t \<noteq> [] \<longleftrightarrow> get_all_transaction_id conn t \<noteq> []"
    by (simp add: search_block_election_on_index_def)
  show ?thesis
    unfolding get_blocks_status_containing_tx_def Let_def status_alist [OF assms] ne
    by (simp add: count_list_map comp_def)
qed

lemma target_block_key:
  "v \<noteq> [] \<Longrightarrow> \<exists>bid \<in> fst ` set v. target_block v tgt = Some bid"
proof (induction v arbitrary: tgt)
  case Nil
  then show ?case by simp
next
  case (Cons p v)
  obtain bid st where p: "p = (bid, st)" by (cases p)
  show ?case
  proof (cases "st = BLOCK_VALID \<or> v = []")
    case True
    then show ?thesis by (auto simp: p)
  next
    case False
    then have "v \<noteq> []" by simp
    from Cons.IH [OF this, of "Some bid"] False show ?thesis by (auto simp: p)
  qed
qed

lemma find_by_id:
  assumes d: "distinct (map block_id bs)" and b: "b \<in> set bs"
  shows "find (\<lambda>x. block_id x = block_id b) bs = Some b"
  using d b
proof (induction bs)
  case Nil
  then show ?case by simp
next
  case (Cons x bs)
  then show ?case by (cases "x = b") (auto simp: image_iff)
qed

lemma get_transaction_resolves:
  assumes d: "distinct (map block_id (bigchain conn))"
    and nc: "uncorrupted self conn t"
  shows "\<exists>r. get_transaction self conn t = Inr r \<and> (r \<noteq> None \<longleftrightarrow> resolves self conn t)"
proof (cases "get_all_transaction_id conn t = []")
  case True
  then show ?thesis
    by (simp add: get_transaction_def blocks_status [OF d] resolves_def)
next
  case ne: False
  let ?v0 = "map (\<lambda>b. (block_id b, stored_status self b)) (get_all_transaction_id conn t)"
  let ?live = "filter (\<lambda>b. stored_status self b \<noteq> BLOCK_INVALID) (get_all_transaction_id conn t)"
  have st: "get_blocks_status_containing_tx self conn t = Inr (Some ?v0)"
    using nc ne by (simp add: blocks_status [OF d] uncorrupted_def)
  have v: "filter (\<lambda>(bid, st). st \<noteq> BLOCK_INVALID) ?v0
             = map (\<lambda>b. (block_id b, stored_status self b)) ?live"
    by (simp add: filter_map comp_def)
  show ?thesis
  proof (cases "?live = []")
    case True
    then have "\<not> resolves self conn t"
      by (simp add: filter_empty_conv resolves_def list_ex_iff)
    then show ?thesis
      using ne True by (simp add: get_transaction_def st v)
  next
    case False
    then have ex: "resolves self conn t"
      by (simp add: filter_empty_conv resolves_def list_ex_iff)
    from False have "map (\<lambda>b. (block_id b, stored_status self b)) ?live \<noteq> []" by simp
    from target_block_key [OF this, of None]
    obtain b0 where b0: "b0 \<in> set ?live"
      and tb: "target_block (map (\<lambda>b. (block_id b, stored_status self b)) ?live) None
                 = Some (block_id b0)"
      by (auto simp: image_iff)
    from b0 have in_chain: "b0 \<in> set (bigchain conn)"
      and has: "t \<in> set (map tx_id (transactions b0))"
      by (auto simp: get_all_transaction_id_def)
    have fnd: "find (\<lambda>x. block_id x = block_id b0) (bigchain conn) = Some b0"
      by (rule find_by_id [OF d in_chain])
    from has have "filter (\<lambda>tx. tx_id tx = t) (transactions b0) \<noteq> []"
      by (auto simp: filter_empty_conv)
    then obtain tx rest where f: "filter (\<lambda>tx. tx_id tx = t) (transactions b0) = tx # rest"
      by (cases "filter (\<lambda>tx. tx_id tx = t) (transactions b0)") auto
    have "get_transaction self conn t = Inr (Some tx)"
      using ne False by (simp add: get_transaction_def st v tb fnd f)
    with ex show ?thesis by simp
  qed
qed

lemma count_valid_transactions_eq:
  assumes d: "distinct (map block_id (bigchain conn))"
    and u: "\<forall>tx \<in> set txs. uncorrupted self conn (tx_id tx)"
    and n: "0 \<le> n" "n \<le> 1"
  shows "count_valid_transactions self conn txs n =
     (if n + int (length (filter (\<lambda>tx. resolves self conn (tx_id tx)) txs)) > 1
      then Inl DoubleSpend
      else Inr (n + int (length (filter (\<lambda>tx. resolves self conn (tx_id tx)) txs))))"
  using u n
proof (induction txs arbitrary: n)
  case Nil
  then show ?case by simp
next
  case (Cons tx txs)
  from Cons.prems have utx: "uncorrupted self conn (tx_id tx)"
    and urest: "\<forall>tx \<in> set txs. uncorrupted self conn (tx_id tx)" by simp_all
  from get_transaction_resolves [OF d utx]
  obtain r where r: "get_transaction self conn (tx_id tx) = Inr r"
    and rr: "r \<noteq> None \<longleftrightarrow> resolves self conn (tx_id tx)" by blast
  let ?n' = "if resolves self conn (tx_id tx) then n + 1 else n"
  show ?case
  proof (cases "?n' > 1")
    case True
    then show ?thesis
      using rr Cons.prems(2,3) by (auto simp: r Let_def split: if_splits)
  next
    case False
    then have b: "0 \<le> ?n'" "?n' \<le> 1" using Cons.prems by auto
    from Cons.IH [OF urest b] False show ?thesis using rr by (simp add: r Let_def)
  qed
qed

lemma get_spent_eq:
  assumes d: "distinct (map block_id (bigchain conn))"
    and u: "\<forall>tx \<in> set (spending_transactions conn i). uncorrupted self conn (tx_id tx)"
  shows "get_spent self conn i =
     (let live = filter (\<lambda>tx. resolves self conn (tx_id tx)) (spending_transactions conn i) in
      if length live > 1 then Inl DoubleSpend
      else if live = [] then Inr None
      else Inr (Some (hd (spending_transactions conn i))))"
proof (cases "spending_transactions conn i = []")
  case True
  then show ?thesis by (simp add: get_spent_def)
next
  case False
  then show ?thesis
    by (simp add: get_spent_def Let_def count_valid_transactions_eq [OF d u])
qed

section \<open>Claims about the chain queries\<close>

text \<open>
  C4. In a store whose block ids are unique (the primary key of \<open>bigchain\<close>), for
  every transaction id: if more than one block containing the transaction has election
  status VALID, \<open>get_blocks_status_containing_tx\<close> fails with the chain-corruption
  error; otherwise it returns the mapping from block id to status for all the blocks that
  contain the transaction, or null when no block contains it.
\<close>

theorem blocks_status_containing_tx:
  assumes "distinct (map block_id (bigchain conn))"
  shows "set (get_all_transaction_id conn t)
           = {b \<in> set (bigchain conn). \<exists>tx \<in> set (transactions b). tx_id tx = t}
   \<and> get_blocks_status_containing_tx self conn t =
       (let containing = get_all_transaction_id conn t in
        if length (filter (\<lambda>b. stored_status self b = BLOCK_VALID) containing) > 1
        then Inl ChainCorruption
        else if containing = [] then Inr None
        else Inr (Some (map (\<lambda>b. (block_id b, stored_status self b)) containing)))"
proof (rule conjI)
  show "set (get_all_transaction_id conn t)
           = {b \<in> set (bigchain conn). \<exists>tx \<in> set (transactions b). tx_id tx = t}"
    by (auto simp: get_all_transaction_id_def)
  show "get_blocks_status_containing_tx self conn t =
       (let containing = get_all_transaction_id conn t in
        if length (filter (\<lambda>b. stored_status self b = BLOCK_VALID) containing) > 1
        then Inl ChainCorruption
        else if containing = [] then Inr None
        else Inr (Some (map (\<lambda>b. (block_id b, stored_status self b)) containing)))"
    unfolding Let_def by (rule blocks_status [OF assms])
qed

theorem blocks_status_containing_tx_witness:
  "distinct (map block_id (bigchain replayed_db))
   \<and> get_blocks_status_containing_tx sample_node replayed_db ''t1''
       = Inr (Some [(''bI'', BLOCK_INVALID), (''bV'', BLOCK_VALID)])
   \<and> distinct (map block_id (bigchain corrupt_db))
   \<and> get_blocks_status_containing_tx sample_node corrupt_db ''t1'' = Inl ChainCorruption
   \<and> get_blocks_status_containing_tx sample_node corrupt_db ''t9'' = Inr None"
proof -
  have d1: "distinct (map block_id (bigchain replayed_db))"
    by (simp add: replayed_db_def sample_defs)
  have d2: "distinct (map block_id (bigchain corrupt_db))"
    by (simp add: corrupt_db_def sample_defs)
  have r1: "get_blocks_status_containing_tx sample_node replayed_db ''t1''
       = Inr (Some [(''bI'', BLOCK_INVALID), (''bV'', BLOCK_VALID)])"
    using blocks_status_containing_tx [OF d1, of "''t1''" sample_node]
    by (simp add: replayed_db_def sample_defs get_all_transaction_id_def stored_status_def
          election_info_def block_election_status_def ceiling_half floor_half)
  have r2: "get_blocks_status_containing_tx sample_node corrupt_db ''t1'' = Inl ChainCorruption"
    using blocks_status_containing_tx [OF d2, of "''t1''" sample_node]
    by (simp add: corrupt_db_def sample_defs get_all_transaction_id_def stored_status_def
          election_info_def block_election_status_def ceiling_half floor_half)
  have r3: "get_blocks_status_containing_tx sample_node corrupt_db ''t9'' = Inr None"
    using blocks_status_containing_tx [OF d2, of "''t9''" sample_node]
    by (simp add: corrupt_db_def sample_defs get_all_transaction_id_def)
  from d1 d2 r1 r2 r3 show ?thesis by simp
qed

text \<open>
  C1 (as amended). In a store with unique block ids, in which no transaction that spends
  the input lies in more than one VALID block and each of them is in one block only:
  \<open>get_spent\<close> raises \<open>DoubleSpend\<close> exactly when more than one transaction spending
  the input lies in a block that is VALID or UNDECIDED; it returns a transaction that
  spends the input when exactly one does; and it returns null when none does, that is
  when every transaction spending the input sits only in INVALID blocks.
\<close>

theorem get_spent_result:
  assumes d: "distinct (map block_id (bigchain conn))"
    and u: "\<forall>tx \<in> set (spending_transactions conn i). uncorrupted self conn (tx_id tx)"
    and o: "distinct (map tx_id (spending_transactions conn i))"
  shows "(get_spent self conn i = Inl DoubleSpend
            \<longleftrightarrow> length (filter (\<lambda>tx. resolves self conn (tx_id tx)) (spending_transactions conn i)) > 1)
   \<and> (length (filter (\<lambda>tx. resolves self conn (tx_id tx)) (spending_transactions conn i)) = 1
        \<longrightarrow> (\<exists>tx \<in> set (spending_transactions conn i). get_spent self conn i = Inr (Some tx)))
   \<and> (filter (\<lambda>tx. resolves self conn (tx_id tx)) (spending_transactions conn i) = []
        \<longrightarrow> get_spent self conn i = Inr None)"
proof -
  let ?live = "filter (\<lambda>tx. resolves self conn (tx_id tx)) (spending_transactions conn i)"
  note eq = get_spent_eq [OF d u, unfolded Let_def]
  have a: "get_spent self conn i = Inl DoubleSpend \<longleftrightarrow> length ?live > 1"
    unfolding eq by simp
  have b: "\<exists>tx \<in> set (spending_transactions conn i). get_spent self conn i = Inr (Some tx)"
    if l: "length ?live = 1"
  proof -
    from l have "?live \<noteq> []" by auto
    then have ne: "spending_transactions conn i \<noteq> []" by auto
    then have "hd (spending_transactions conn i) \<in> set (spending_transactions conn i)"
      by simp
    moreover have "get_spent self conn i = Inr (Some (hd (spending_transactions conn i)))"
      unfolding eq using l \<open>?live \<noteq> []\<close> by simp
    ultimately show ?thesis by blast
  qed
  have c: "get_spent self conn i = Inr None" if "?live = []"
    unfolding eq using that by simp
  from a b c show ?thesis by blast
qed

theorem get_spent_result_witness:
  "distinct (map block_id (bigchain spent_once_db))
   \<and> list_all (\<lambda>tx. uncorrupted sample_node spent_once_db (tx_id tx))
        (spending_transactions spent_once_db (TxInput ''t0'' 0))
   \<and> map tx_id (spending_transactions spent_once_db (TxInput ''t0'' 0)) = [''t1'', ''t2'']
   \<and> map tx_id (filter (\<lambda>tx. resolves sample_node spent_once_db (tx_id tx))
                   (spending_transactions spent_once_db (TxInput ''t0'' 0))) = [''t1'']
   \<and> get_spent sample_node spent_once_db (TxInput ''t0'' 0) \<noteq> Inl DoubleSpend
   \<and> get_spent sample_node spent_once_db (TxInput ''t0'' 0) \<noteq> Inr None"
proof -
  let ?sp = "spending_transactions spent_once_db (TxInput ''t0'' 0)"
  have d: "distinct (map block_id (bigchain spent_once_db))"
    by (simp add: spent_once_db_def sample_defs)
  have ids: "map tx_id ?sp = [''t1'', ''t2'']"
    by (simp add: spent_once_db_def sample_defs spending_transactions_def)
  have u: "list_all (\<lambda>tx. uncorrupted sample_node spent_once_db (tx_id tx)) ?sp"
    by (simp add: spent_once_db_def sample_defs query_defs)
  have live: "map tx_id (filter (\<lambda>tx. resolves sample_node spent_once_db (tx_id tx)) ?sp) = [''t1'']"
    by (simp add: spent_once_db_def sample_defs query_defs)
  from u have u': "\<forall>tx \<in> set ?sp. uncorrupted sample_node spent_once_db (tx_id tx)"
    by (simp only: list_all_iff)
  from ids have o: "distinct (map tx_id ?sp)" by simp
  from live have l1: "length (filter (\<lambda>tx. resolves sample_node spent_once_db (tx_id tx)) ?sp) = 1"
    by (metis length_map length_Cons list.size(3) One_nat_def)
  from get_spent_result [OF d u' o] l1
  have "get_spent sample_node spent_once_db (TxInput ''t0'' 0) \<noteq> Inl DoubleSpend"
    and "get_spent sample_node spent_once_db (TxInput ''t0'' 0) \<noteq> Inr None"
    by auto
  with d u ids live show ?thesis by simp
qed

text \<open>
  C1 as stated fails: two transactions that spend the same input, each in an UNDECIDED
  block and none in a VALID block, make \<open>get_spent\<close> raise \<open>DoubleSpend\<close>.
\<close>

theorem get_spent_undecided_counterexample:
  "map (stored_status sample_node) (bigchain undecided_spends_db) = [BLOCK_UNDECIDED, BLOCK_UNDECIDED]
   \<and> map tx_id (spending_transactions undecided_spends_db (TxInput ''t0'' 0)) = [''t1'', ''t2'']
   \<and> get_spent sample_node undecided_spends_db (TxInput ''t0'' 0) = Inl DoubleSpend"
  by (simp add: undecided_spends_db_def sample_defs query_defs)

section \<open>Claims about votes and validation\<close>

lemma previous_vote_scan_no_own_vote:
  "previous_vote_scan self block vs = Inr False \<longleftrightarrow> (\<forall>v \<in> set vs. node_pubkey v \<noteq> me self)"
  by (induction vs) auto

lemma has_previous_vote_no_own_vote:
  "has_previous_vote self block = Inr False \<longleftrightarrow> (\<forall>v \<in> set (votes block). node_pubkey v \<noteq> me self)"
  by (simp add: has_previous_vote_def previous_vote_scan_no_own_vote)

lemma previous_vote_scan_never_improper:
  "previous_vote_scan self block vs \<noteq> Inl ImproperVoteError"
  by (induction vs) auto

lemma previous_vote_scan_own_vote:
  assumes "\<forall>v \<in> set vs. node_pubkey v \<noteq> me self" and "node_pubkey v = me self"
  shows "previous_vote_scan self block (vs @ v # ws) =
           (if util_verify_vote_signature self block v then Inr True else Inl AttributeError)"
  using assms by (induction vs) auto

lemmas validation_defs =
  validate_block_def validate_transaction_def is_valid_transaction_def is_valid_block_def
  has_previous_vote_def caught_by_is_valid_transaction_def checking_node_def

text \<open>
  C7 fails on the code. For the block \<open>forged_vote_block\<close>, whose second vote is this
  node's and does not verify, \<open>has_previous_vote\<close> raises \<open>AttributeError\<close>, not
  \<open>ImproperVoteError\<close>: the \<open>raise\<close> statement calls \<open>.format\<close> on the exception
  object.
\<close>

theorem has_previous_vote_forged_vote:
  "map (\<lambda>v. (node_pubkey v = me sample_node,
              util_verify_vote_signature sample_node forged_vote_block v))
       (votes forged_vote_block) = [(False, True), (True, False)]
   \<and> has_previous_vote sample_node forged_vote_block = Inl AttributeError
   \<and> has_previous_vote sample_node forged_vote_block \<noteq> Inl ImproperVoteError"
  by (simp add: forged_vote_block_def sample_defs has_previous_vote_def)

text \<open>
  C5 (as amended). \<open>is_valid_transaction\<close> catches only ValueError, OperationError,
  TransactionDoesNotExist, TransactionOwnerError, DoubleSpend, InvalidHash and
  InvalidSignature, returning False for them, and lets every other error of the
  validation, a chain-corruption error among them, propagate. \<open>is_valid_block\<close>
  catches every error raised during the validation of the block, chain-corruption and
  improper-vote errors included, and returns False for it.
\<close>

theorem boolean_validation_forms:
  "(\<forall>e. validate_transaction self conn tx = Inl e \<longrightarrow>
        is_valid_transaction self conn tx
          = (if e \<in> {ValueError, OperationError, TransactionDoesNotExist, TransactionOwnerError,
                      DoubleSpend, InvalidHash, InvalidSignature}
             then Inr None else Inl e))
   \<and> (validate_transaction self conn tx = Inl ChainCorruption \<longrightarrow>
        is_valid_transaction self conn tx = Inl ChainCorruption)
   \<and> (\<forall>tx'. validate_transaction self conn tx = Inr tx' \<longrightarrow>
        is_valid_transaction self conn tx = Inr (Some tx))
   \<and> (\<forall>e. validate_block self conn block = Inl e \<longrightarrow> is_valid_block self conn block = Inr False)
   \<and> (\<forall>b. validate_block self conn block = Inr b \<longrightarrow> is_valid_block self conn block = Inr True)"
  by (simp add: is_valid_transaction_def is_valid_block_def caught_by_is_valid_transaction_def)

theorem boolean_validation_forms_witness:
  "validate_transaction checking_node corrupt_db (hd (transactions spending_block)) = Inl ChainCorruption
   \<and> is_valid_transaction checking_node corrupt_db (hd (transactions spending_block)) = Inl ChainCorruption
   \<and> validate_block checking_node corrupt_db spending_block = Inl ChainCorruption
   \<and> is_valid_block checking_node corrupt_db spending_block = Inr False"
proof -
  have v: "validate_transaction checking_node corrupt_db (hd (transactions spending_block))
             = Inl ChainCorruption"
    by (simp add: spending_block_def corrupt_db_def validation_defs sample_defs query_defs)
  have b: "validate_block checking_node corrupt_db spending_block = Inl ChainCorruption"
    by (simp add: spending_block_def corrupt_db_def validation_defs sample_defs query_defs)
  from boolean_validation_forms
         [of checking_node corrupt_db "hd (transactions spending_block)" spending_block] v b
  show ?thesis by simp
qed

text \<open>
  C5 as stated fails: on a chain with a transaction in two VALID blocks, validating a
  block that spends an output of that transaction raises the chain-corruption error, and
  \<open>is_valid_block\<close> returns False; so it does for a block with a badly signed vote of
  this node.
\<close>

theorem is_valid_block_swallows_counterexample:
  "validate_block checking_node corrupt_db spending_block = Inl ChainCorruption
   \<and> is_valid_block checking_node corrupt_db spending_block = Inr False
   \<and> is_valid_block sample_node corrupt_db forged_vote_block = Inr False"
  by (simp add: spending_block_def forged_vote_block_def corrupt_db_def validation_defs
        sample_defs query_defs)

section \<open>Claims about the owned outputs\<close>

text \<open>
  C10 fails on the code. For a transaction with output 0 owned by alice and output 1
  owned by bob, \<open>get_owned_ids\<close> lists alice's output twice (the second time for
  bob's condition, through the stale \<open>tx_input\<close>), and for bob it raises
  \<open>UnboundLocalError\<close>.
\<close>

theorem get_owned_ids_two_outputs:
  "map (\<lambda>c. (cid c, new_owners c))
       (concat (map conditions (concat (map transactions (bigchain two_outputs_db)))))
     = [(0, [''alice'']), (1, [''bob''])]
   \<and> get_owned_ids sample_node two_outputs_db ''alice'' = Inr [TxInput ''t1'' 0, TxInput ''t1'' 0]
   \<and> get_owned_ids sample_node two_outputs_db ''bob'' = Inl UnboundLocalError"
  by (simp add: two_outputs_db_def sample_defs query_defs get_owned_ids_def owned_query_def)

section \<open>Claims about writing votes and the genesis block\<close>

text \<open>
  C6 fails on the code. The claim has \<open>write_vote\<close> set \<open>block_number\<close> only if the
  stored document has no \<open>block_number\<close> field. The stored block \<open>b1\<close> already has
  \<open>block_number\<close> 5; the copy of it that the node read before has none and carries no
  vote of this node; \<open>write_vote\<close> with that copy overrides the stored
  \<open>block_number\<close> with 7.
\<close>

theorem write_vote_stale_copy_overrides_block_number:
  "map (\<lambda>b. (block_id b, block_number b)) (bigchain numbered_db) = [(''b1'', Some 5)]
   \<and> block_id stale_block = ''b1''
   \<and> has_previous_vote sample_node stale_block = Inr False
   \<and> map_sum id (map (\<lambda>b. (block_id b, block_number b)) \<circ> bigchain)
        (write_vote sample_node numbered_db stale_block (mk_vote ''n1'' ''ok'' ''b1'' True) 7)
       = Inr [(''b1'', Some 7)]"
  by (simp add: numbered_db_def stale_block_def sample_defs write_vote_def has_previous_vote_def)

text \<open>
  C8 (as amended). \<open>create_genesis_block\<close> fails with
  \<open>GenesisBlockAlreadyExistsError\<close> whenever the table \<open>bigchain\<close> is non-empty. On
  an empty store it writes, with hard durability, exactly one block, with
  \<open>block_number\<close> 0, that contains the one signed transaction which the plugin creates
  for the operation GENESIS and the payload \<open>{message: "Hello World from the
  BigchainDB"}\<close>; with a plugin that records the operation and the payload it is given
  and whose signing keeps them, that transaction is a GENESIS transaction with this
  payload.
\<close>

theorem create_genesis_block_result:
  "(bigchain conn \<noteq> [] \<longrightarrow> create_genesis_block self conn = Inl GenesisBlockAlreadyExistsError)
   \<and> (bigchain conn = [] \<longrightarrow>
        (\<exists>blk. create_genesis_block self conn
                  = Inr (blk, conn\<lparr>bigchain := [blk],
                                   block_writes := block_writes conn @ [(block_id blk, Hard)]\<rparr>)
           \<and> block_number blk = Some 0
           \<and> transactions blk
               = [consensus_sign_transaction self
                    (consensus_create_transaction self [me self] [me self] None ''GENESIS''
                       \<lparr>message = Some ''Hello World from the BigchainDB'', category = None,
                        issue = None, amount = None, account = None, previous = None,
                        trader = None, asset = None\<rparr>)
                    (me_private self)]))
   \<and> (bigchain conn = []
        \<and> (\<forall>co no inp op pl.
              operation (consensus_create_transaction self co no inp op pl) = op
              \<and> data_payload (consensus_create_transaction self co no inp op pl) = pl)
        \<and> (\<forall>tx key.
              operation (consensus_sign_transaction self tx key) = operation tx
              \<and> data_payload (consensus_sign_transaction self tx key) = data_payload tx)
      \<longrightarrow>
        (\<exists>blk conn' tx. create_genesis_block self conn = Inr (blk, conn')
           \<and> bigchain conn' = [blk]
           \<and> transactions blk = [tx]
           \<and> operation tx = ''GENESIS''
           \<and> message (data_payload tx) = Some ''Hello World from the BigchainDB''))"
proof (intro conjI impI)
  assume "bigchain conn \<noteq> []"
  then show "create_genesis_block self conn = Inl GenesisBlockAlreadyExistsError"
    by (simp add: create_genesis_block_def)
next
  assume "bigchain conn = []"
  then show "\<exists>blk. create_genesis_block self conn
                  = Inr (blk, conn\<lparr>bigchain := [blk],
                                   block_writes := block_writes conn @ [(block_id blk, Hard)]\<rparr>)
           \<and> block_number blk = Some 0
           \<and> transactions blk
               = [consensus_sign_transaction self
                    (consensus_create_transaction self [me self] [me self] None ''GENESIS''
                       \<lparr>message = Some ''Hello World from the BigchainDB'', category = None,
                        issue = None, amount = None, account = None, previous = None,
                        trader = None, asset = None\<rparr>)
                    (me_private self)]"
    by (simp add: create_genesis_block_def create_block_def write_block_def Let_def
          genesis_payload_def)
next
  assume a: "bigchain conn = []
        \<and> (\<forall>co no inp op pl.
              operation (consensus_create_transaction self co no inp op pl) = op
              \<and> data_payload (consensus_create_transaction self co no inp op pl) = pl)
        \<and> (\<forall>tx key.
              operation (consensus_sign_transaction self tx key) = operation tx
              \<and> data_payload (consensus_sign_transaction self tx key) = data_payload tx)"
  then show "\<exists>blk conn' tx. create_genesis_block self conn = Inr (blk, conn')
           \<and> bigchain conn' = [blk]
           \<and> transactions blk = [tx]
           \<and> operation tx = ''GENESIS''
           \<and> message (data_payload tx) = Some ''Hello World from the BigchainDB''"
    by (simp add: create_genesis_block_def create_block_def write_block_def Let_def
          genesis_payload_def)
qed

theorem create_genesis_block_result_witness:
  "bigchain (mk_db []) = []
   \<and> (\<exists>blk conn' tx. create_genesis_block sample_node (mk_db []) = Inr (blk, conn')
         \<and> bigchain conn' = [blk]
         \<and> transactions blk = [tx]
         \<and> operation tx = ''GENESIS''
         \<and> message (data_payload tx) = Some ''Hello World from the BigchainDB'')
   \<and> bigchain replayed_db \<noteq> []
   \<and> create_genesis_block sample_node replayed_db = Inl GenesisBlockAlreadyExistsError"
proof -
  have e: "bigchain (mk_db []) = []" by (simp add: mk_db_def)
  have c: "\<forall>co no inp op pl.
              operation (consensus_create_transaction sample_node co no inp op pl) = op
              \<and> data_payload (consensus_create_transaction sample_node co no inp op pl) = pl"
    by (simp add: sample_defs)
  have g: "\<forall>tx key.
              operation (consensus_sign_transaction sample_node tx key) = operation tx
              \<and> data_payload (consensus_sign_transaction sample_node tx key) = data_payload tx"
    by (simp add: sample_defs)
  have n: "bigchain replayed_db \<noteq> []" by (simp add: replayed_db_def mk_db_def)
  from create_genesis_block_result [of "mk_db []" sample_node] e c g
  have r1: "\<exists>blk conn' tx. create_genesis_block sample_node (mk_db []) = Inr (blk, conn')
         \<and> bigchain conn' = [blk]
         \<and> transactions blk = [tx]
         \<and> operation tx = ''GENESIS''
         \<and> message (data_payload tx) = Some ''Hello World from the BigchainDB''"
    by blast
  from create_genesis_block_result [of replayed_db sample_node] n
  have r2: "create_genesis_block sample_node replayed_db = Inl GenesisBlockAlreadyExistsError"
    by blast
  from e r1 n r2 show ?thesis by blast
qed

text \<open>
  C8 as stated fails: the transaction of the genesis block has the operation GENESIS,
  not CREATE.
\<close>

theorem genesis_operation_counterexample:
  "bigchain (mk_db []) = []
   \<and> map_sum id (\<lambda>(blk, conn'). (map block_number (bigchain conn'),
                                  map operation (concat (map transactions (bigchain conn')))))
        (create_genesis_block sample_node (mk_db []))
       = Inr ([Some 0], [''GENESIS''])
   \<and> ''GENESIS'' \<noteq> ''CREATE''"
  by (simp add: create_genesis_block_def create_block_def write_block_def Let_def
        genesis_payload_def mk_db_def sample_defs)

section \<open>Claims about the currency transfer\<close>

lemmas currency_defs =
  get_last_currency_def get_backlog_currency_ids_def get_bigchain_currency_ids_def
  owned_query_def get_transaction_from_backlog_def sender_leg_def receiver_leg_def
  last_tx_id_def charge_tx_def currency_db_def transfer_payload_def rejecting_node_def
  validate_transaction_def is_valid_transaction_def caught_by_is_valid_transaction_def

lemma small_amount_no_overflow: "\<bar>i\<bar> \<le> 1000 \<Longrightarrow> \<not> float_overflows i"
  unfolding float_overflows_def by simp

text \<open>
  C9. For a payload of valid format whose amount converts to a float:
  \<open>transfer_currency\<close> requires a positive amount, raising \<open>InvalidPayload\<close> for an
  amount that is not; with a positive amount it fails with \<open>BalanceNotEnough\<close> when the
  sender's balance, the account of the sender's \<open>get_last_currency\<close>, is smaller than
  the amount; and with a sufficient balance, when the sender leg fails validation, or the
  sender leg passes and the receiver leg fails, it aborts with \<open>InvalidTransaction\<close>
  and the store is as before: neither leg is in the backlog. When both legs pass, both
  are written to the backlog.
\<close>

theorem transfer_currency_checks:
  assumes f: "payload_validate_payload_format self p"
    and a: "amount p = Some cost"
    and nf: "\<not> float_overflows cost"
  shows "(cost \<le> 0 \<longrightarrow> transfer_currency self conn s sk r p = (Inl InvalidPayload, conn))
   \<and> (0 < cost \<and> get_last_currency self conn s = Inr l
        \<and> tool_get_current_account self l = Inr bal \<and> bal < cost
      \<longrightarrow> transfer_currency self conn s sk r p = (Inl BalanceNotEnough, conn))
   \<and> (0 < cost \<and> get_last_currency self conn s = Inr l
        \<and> tool_get_current_account self l = Inr bal \<and> cost \<le> bal
        \<and> sender_leg self s r p l bal = Inr stx \<and> receiver_leg self conn s r p = Inr rtx
        \<and> ((\<exists>e. validate_transaction self conn stx = Inl e \<and> caught_by_is_valid_transaction e)
            \<or> (\<exists>t. validate_transaction self conn stx = Inr t)
               \<and> (\<exists>e. validate_transaction self conn rtx = Inl e \<and> caught_by_is_valid_transaction e))
      \<longrightarrow> transfer_currency self conn s sk r p = (Inl InvalidTransaction, conn))
   \<and> (0 < cost \<and> get_last_currency self conn s = Inr l
        \<and> tool_get_current_account self l = Inr bal \<and> cost \<le> bal
        \<and> sender_leg self s r p l bal = Inr stx \<and> receiver_leg self conn s r p = Inr rtx
        \<and> (\<exists>t. validate_transaction self conn stx = Inr t)
        \<and> (\<exists>t. validate_transaction self conn rtx = Inr t)
      \<longrightarrow> transfer_currency self conn s sk r p
            = (Inr (), write_transaction self (write_transaction self conn stx) rtx))"
proof (intro conjI impI)
  assume "cost \<le> 0"
  then show "transfer_currency self conn s sk r p = (Inl InvalidPayload, conn)"
    using f a nf by (simp add: transfer_currency_def)
next
  assume "0 < cost \<and> get_last_currency self conn s = Inr l
        \<and> tool_get_current_account self l = Inr bal \<and> bal < cost"
  then show "transfer_currency self conn s sk r p = (Inl BalanceNotEnough, conn)"
    using f a nf by (simp add: transfer_currency_def)
next
  assume h: "0 < cost \<and> get_last_currency self conn s = Inr l
        \<and> tool_get_current_account self l = Inr bal \<and> cost \<le> bal
        \<and> sender_leg self s r p l bal = Inr stx \<and> receiver_leg self conn s r p = Inr rtx
        \<and> ((\<exists>e. validate_transaction self conn stx = Inl e \<and> caught_by_is_valid_transaction e)
            \<or> (\<exists>t. validate_transaction self conn stx = Inr t)
               \<and> (\<exists>e. validate_transaction self conn rtx = Inl e \<and> caught_by_is_valid_transaction e))"
  then have "submit_legs self conn stx rtx = (Inl InvalidTransaction, conn)"
    by (auto simp: submit_legs_def is_valid_transaction_def)
  with h show "transfer_currency self conn s sk r p = (Inl InvalidTransaction, conn)"
    using f a nf by (simp add: transfer_currency_def transfer_legs_def)
next
  assume h: "0 < cost \<and> get_last_currency self conn s = Inr l
        \<and> tool_get_current_account self l = Inr bal \<and> cost \<le> bal
        \<and> sender_leg self s r p l bal = Inr stx \<and> receiver_leg self conn s r p = Inr rtx
        \<and> (\<exists>t. validate_transaction self conn stx = Inr t)
        \<and> (\<exists>t. validate_transaction self conn rtx = Inr t)"
  then have "submit_legs self conn stx rtx
               = (Inr (), write_transaction self (write_transaction self conn stx) rtx)"
    by (auto simp: submit_legs_def is_valid_transaction_def)
  with h show "transfer_currency self conn s sk r p
            = (Inr (), write_transaction self (write_transaction self conn stx) rtx)"
    using f a nf by (simp add: transfer_currency_def transfer_legs_def)
qed

theorem transfer_currency_checks_witness:
  "get_last_currency sample_node currency_db ''alice'' = Inr (LastTx charge_tx)
   \<and> tool_get_current_account sample_node (LastTx charge_tx) = Inr 100
   \<and> transfer_currency sample_node currency_db ''alice'' ''apriv'' ''bob'' (transfer_payload 0)
       = (Inl InvalidPayload, currency_db)
   \<and> transfer_currency sample_node currency_db ''alice'' ''apriv'' ''bob'' (transfer_payload 300)
       = (Inl BalanceNotEnough, currency_db)
   \<and> transfer_currency rejecting_node currency_db ''alice'' ''apriv'' ''bob'' (transfer_payload 30)
       = (Inl InvalidTransaction, currency_db)
   \<and> fst (transfer_currency sample_node currency_db ''alice'' ''apriv'' ''bob'' (transfer_payload 30))
       = Inr ()
   \<and> map (\<lambda>tx. (issue (data_payload tx), account (data_payload tx), assignee tx))
        (backlog (snd (transfer_currency sample_node currency_db ''alice'' ''apriv'' ''bob''
                         (transfer_payload 30))))
       = [(Some ''cost'', Some 100, Some ''n2''), (Some ''earn'', Some 0, Some ''n2'')]"
proof -
  have l: "get_last_currency sample_node currency_db ''alice'' = Inr (LastTx charge_tx)"
    by (simp add: currency_defs sample_defs query_defs)
  have l': "get_last_currency rejecting_node currency_db ''alice'' = Inr (LastTx charge_tx)"
    by (simp add: currency_defs sample_defs query_defs)
  have b: "tool_get_current_account sample_node (LastTx charge_tx) = Inr 100"
    by (simp add: currency_defs sample_defs)
  have b': "tool_get_current_account rejecting_node (LastTx charge_tx) = Inr 100"
    by (simp add: currency_defs sample_defs)
  have f: "payload_validate_payload_format sample_node (transfer_payload n)"
    "payload_validate_payload_format rejecting_node (transfer_payload n)"
    "amount (transfer_payload n) = Some n" for n
    by (simp_all add: currency_defs sample_defs)
  have r0: "transfer_currency sample_node currency_db ''alice'' ''apriv'' ''bob'' (transfer_payload 0)
       = (Inl InvalidPayload, currency_db)"
    using transfer_currency_checks [OF f(1) f(3) small_amount_no_overflow, of 0]
    by simp
  have r300: "transfer_currency sample_node currency_db ''alice'' ''apriv'' ''bob''
                (transfer_payload 300) = (Inl BalanceNotEnough, currency_db)"
    using transfer_currency_checks [OF f(1) f(3) small_amount_no_overflow, of 300
            currency_db "''alice''" "''apriv''" "''bob''" "LastTx charge_tx" 100] l b
    by simp
  obtain stx where stx: "sender_leg rejecting_node ''alice'' ''bob'' (transfer_payload 30)
                           (LastTx charge_tx) 100 = Inr stx"
    by (simp add: currency_defs sample_defs)
  obtain rtx where rtx: "receiver_leg rejecting_node currency_db ''alice'' ''bob''
                           (transfer_payload 30) = Inr rtx"
    by (simp add: currency_defs sample_defs query_defs)
  have rej: "validate_transaction rejecting_node currency_db stx = Inl InvalidSignature"
    "caught_by_is_valid_transaction InvalidSignature"
    by (simp_all add: currency_defs)
  have r30: "transfer_currency rejecting_node currency_db ''alice'' ''apriv'' ''bob''
               (transfer_payload 30) = (Inl InvalidTransaction, currency_db)"
    using transfer_currency_checks [OF f(2) f(3) small_amount_no_overflow, of 30
            currency_db "''alice''" "''apriv''" "''bob''" "LastTx charge_tx" 100 stx rtx]
      l' b' stx rtx rej
    by simp
  obtain stx' where stx': "sender_leg sample_node ''alice'' ''bob'' (transfer_payload 30)
                           (LastTx charge_tx) 100 = Inr stx'"
    by (simp add: currency_defs sample_defs)
  obtain rtx' where rtx': "receiver_leg sample_node currency_db ''alice'' ''bob''
                           (transfer_payload 30) = Inr rtx'"
    by (simp add: currency_defs sample_defs query_defs)
  have acc: "validate_transaction sample_node currency_db stx' = Inr stx'"
    "validate_transaction sample_node currency_db rtx' = Inr rtx'"
    by (simp_all add: currency_defs sample_defs)
  have ok: "transfer_currency sample_node currency_db ''alice'' ''apriv'' ''bob''
               (transfer_payload 30)
             = (Inr (), write_transaction sample_node
                          (write_transaction sample_node currency_db stx') rtx')"
    using transfer_currency_checks [OF f(1) f(3) small_amount_no_overflow, of 30
            currency_db "''alice''" "''apriv''" "''bob''" "LastTx charge_tx" 100 stx' rtx']
      l b stx' rtx' acc
    by simp
  have legs: "map (\<lambda>tx. (issue (data_payload tx), account (data_payload tx), assignee tx))
        (backlog (write_transaction sample_node
                          (write_transaction sample_node currency_db stx') rtx'))
       = [(Some ''cost'', Some 100, Some ''n2''), (Some ''earn'', Some 0, Some ''n2'')]"
    using stx' rtx'
    by (auto simp add: currency_defs sample_defs query_defs write_transaction_def Let_def)
  from l b r0 r300 r30 ok legs show ?thesis by simp
qed

end
